theory Spec2Isabelle
  imports Main "HOL-Library.AList" "HOL-Library.Word"
begin

unbundle bit_operations_syntax

section \<open>Python values, dictionaries and exceptions\<close>

text \<open>
  The two modules, \<open>oslo_cache/core.py\<close> and \<open>oslo_cache/backends/redis.py\<close>, work on
  Python dictionaries with string keys and values of several types. A dictionary is an
  association list in insertion order; \<open>AList.update\<close> overwrites the value of a key that is
  present in place and appends a new key, as a Python \<open>dict\<close> does. An exception is a value of
  type \<open>error\<close>, and a function that can raise returns \<open>error + 'a\<close>.
\<close>

datatype pyval =
    PyNone
  | PyBool bool
  | PyInt int
  | PyStr string
  | PyList "string list"
  | PyPairs "(string \<times> int) list"
  | PyDict "(string \<times> pyval) list"

type_synonym pydict = "(string \<times> pyval) list"

datatype error =
    ConfigurationError
  | KeyError string
  | ValueError
  | AttributeError
  | TypeError
  | NoSuchOptError string
  | ImportError string
  | UnknownBackendError string

text \<open>Python's truth value of an object, as \<open>if x:\<close> and \<open>x and y\<close> test it.\<close>

fun truthy :: "pyval \<Rightarrow> bool" where
  "truthy PyNone = False"
| "truthy (PyBool b) = b"
| "truthy (PyInt i) = (i \<noteq> 0)"
| "truthy (PyStr s) = (s \<noteq> [])"
| "truthy (PyList xs) = (xs \<noteq> [])"
| "truthy (PyPairs ps) = (ps \<noteq> [])"
| "truthy (PyDict d) = (d \<noteq> [])"

text \<open>\<open>d[k]\<close>: the value, or \<open>KeyError\<close>.\<close>

definition getitem :: "pydict \<Rightarrow> string \<Rightarrow> error + pyval" where
  "getitem d k = (case map_of d k of None \<Rightarrow> Inl (KeyError k) | Some v \<Rightarrow> Inr v)"

text \<open>\<open>del d[k]\<close>: the dictionary without the key, or \<open>KeyError\<close>.\<close>

definition delitem :: "pydict \<Rightarrow> string \<Rightarrow> error + pydict" where
  "delitem d k = (case map_of d k of None \<Rightarrow> Inl (KeyError k) | Some v \<Rightarrow> Inr (AList.delete k d))"

text \<open>\<open>d.setdefault(k, v)\<close>, for its effect on the dictionary.\<close>

definition setdefault :: "string \<Rightarrow> pyval \<Rightarrow> pydict \<Rightarrow> pydict" where
  "setdefault k v d = (case map_of d k of None \<Rightarrow> AList.update k v d | Some w \<Rightarrow> d)"

section \<open>The configuration object\<close>

text \<open>
  \<open>conf.cache\<close> is the option group of the library. The declarations of its options are in
  \<open>oslo_cache/_opts.py\<close>; the fields whose values \<open>core.py\<close> only copies are kept as
  Python values. \<open>groups\<close> holds the option groups of the application by name, each with
  the options \<open>caching\<close> and \<open>cache_time\<close> when it registers them.
\<close>

record cache_group =
  config_prefix :: string
  backend :: pyval
  expiration_time :: pyval
  backend_argument :: "string list"
  proxies :: "string list"
  enabled :: bool
  debug_cache_backend :: bool
  memcache_servers :: pyval
  memcache_dead_retry :: pyval
  memcache_socket_timeout :: pyval
  memcache_pool_maxsize :: pyval
  memcache_pool_unused_timeout :: pyval
  memcache_pool_connection_get_timeout :: pyval

record group_opts =
  caching :: "bool option"
  cache_time :: "pyval option"

record conf =
  cache :: cache_group
  groups :: "string \<Rightarrow> group_opts option"

section \<open>should_cache and get_expiration_time\<close>

text \<open>
  \<open>getattr(conf, group)\<close> raises when the group is not registered;
  \<open>getattr(conf_group, 'caching', True)\<close> is \<open>True\<close> when the group has no such option.
  The argument \<open>value\<close> of \<open>should_cache\<close> is not read.
\<close>

definition conf_getattr :: "conf \<Rightarrow> string \<Rightarrow> error + group_opts" where
  "conf_getattr c g = (case groups c g of None \<Rightarrow> Inl (NoSuchOptError g) | Some opts \<Rightarrow> Inr opts)"

definition should_cache :: "conf \<Rightarrow> string \<Rightarrow> 'v \<Rightarrow> error + bool" where
  "should_cache c g v =
     (if \<not> enabled (cache c) then Inr False
      else case conf_getattr c g of
        Inl e \<Rightarrow> Inl e
      | Inr conf_group \<Rightarrow> Inr (case caching conf_group of None \<Rightarrow> True | Some b \<Rightarrow> b))"

definition get_expiration_time :: "conf \<Rightarrow> string \<Rightarrow> error + pyval" where
  "get_expiration_time c g =
     (case conf_getattr c g of
        Inl e \<Rightarrow> Inl e
      | Inr conf_group \<Rightarrow> Inr (case cache_time conf_group of None \<Rightarrow> PyNone | Some t \<Rightarrow> t))"

section \<open>Strings\<close>

text \<open>
  \<open>s.split(sep, 1)\<close> cuts at the first separator, \<open>s.rsplit(sep, 1)\<close> at the last one,
  \<open>s.split(sep)\<close> at every one; a string without the separator comes back alone.
  \<open>sep.join(parts)\<close> puts the separator between the parts.
\<close>

definition split_first :: "char \<Rightarrow> string \<Rightarrow> string list" where
  "split_first c s =
     (if c \<in> set s then [takeWhile (\<lambda>x. x \<noteq> c) s, tl (dropWhile (\<lambda>x. x \<noteq> c) s)] else [s])"

definition rsplit_last :: "char \<Rightarrow> string \<Rightarrow> string list" where
  "rsplit_last c s =
     (if c \<in> set s
      then [rev (tl (dropWhile (\<lambda>x. x \<noteq> c) (rev s))), rev (takeWhile (\<lambda>x. x \<noteq> c) (rev s))]
      else [s])"

fun split_all :: "char \<Rightarrow> string \<Rightarrow> string list" where
  "split_all c [] = [[]]"
| "split_all c (x # xs) =
     (if x = c then [] # split_all c xs
      else (case split_all c xs of [] \<Rightarrow> [[x]] | y # ys \<Rightarrow> (x # y) # ys))"

fun py_join :: "string \<Rightarrow> string list \<Rightarrow> string" where
  "py_join sep [] = []"
| "py_join sep [x] = x"
| "py_join sep (x # y # ys) = x @ sep @ py_join sep (y # ys)"

text \<open>
  The tuple assignment \<open>(a, b) = xs\<close>, and the target \<open>for a, b in ...\<close>: a list of any
  other length raises \<open>ValueError\<close>.
\<close>

definition unpack_pair :: "'a list \<Rightarrow> error + ('a \<times> 'a)" where
  "unpack_pair xs = (case xs of [a, b] \<Rightarrow> Inr (a, b) | _ \<Rightarrow> Inl ValueError)"

section \<open>The config translator: _build_cache_config\<close>

text \<open>
  The loop over \<open>conf.cache.backend_argument\<close>. The \<open>except ValueError\<close> clause logs the
  argument and continues with the next one; any other exception would leave the loop. The
  calls of the logger do not touch the dictionary and are left out.
\<close>

fun add_backend_arguments :: "string \<Rightarrow> string list \<Rightarrow> pydict \<Rightarrow> error + pydict" where
  "add_backend_arguments prefix [] conf_dict = Inr conf_dict"
| "add_backend_arguments prefix (argument # rest) conf_dict =
     (case unpack_pair (split_first CHR '':'' argument) of
        Inl ValueError \<Rightarrow> add_backend_arguments prefix rest conf_dict
      | Inl e \<Rightarrow> Inl e
      | Inr (argname, argvalue) \<Rightarrow>
          add_backend_arguments prefix rest
            (AList.update (py_join ''.'' [prefix, ''arguments'', argname]) (PyStr argvalue)
               conf_dict))"

text \<open>\<open>getattr(conf.cache, name)\<close> for the memcache options.\<close>

definition cache_getattr :: "cache_group \<Rightarrow> string \<Rightarrow> error + pyval" where
  "cache_getattr g name =
     (if name = ''memcache_servers'' then Inr (memcache_servers g)
      else if name = ''memcache_dead_retry'' then Inr (memcache_dead_retry g)
      else if name = ''memcache_socket_timeout'' then Inr (memcache_socket_timeout g)
      else if name = ''memcache_pool_maxsize'' then Inr (memcache_pool_maxsize g)
      else if name = ''memcache_pool_unused_timeout'' then Inr (memcache_pool_unused_timeout g)
      else if name = ''memcache_pool_connection_get_timeout''
        then Inr (memcache_pool_connection_get_timeout g)
      else Inl (NoSuchOptError name))"

definition memcache_args :: "string list" where
  "memcache_args =
     [''dead_retry'', ''socket_timeout'', ''pool_maxsize'', ''pool_unused_timeout'',
      ''pool_connection_get_timeout'']"

text \<open>The second loop: \<open>conf_dict['%s.arguments.%s' % (prefix, arg)] = value\<close>.\<close>

fun set_memcache_arguments ::
  "cache_group \<Rightarrow> string \<Rightarrow> string list \<Rightarrow> pydict \<Rightarrow> error + pydict" where
  "set_memcache_arguments g prefix [] conf_dict = Inr conf_dict"
| "set_memcache_arguments g prefix (arg # rest) conf_dict =
     (case cache_getattr g (''memcache_'' @ arg) of
        Inl e \<Rightarrow> Inl e
      | Inr v \<Rightarrow>
          set_memcache_arguments g prefix rest
            (AList.update (prefix @ ''.arguments.'' @ arg) v conf_dict))"

definition build_cache_config :: "conf \<Rightarrow> error + pydict" where
  "build_cache_config c =
     (let prefix = config_prefix (cache c);
          conf_dict = AList.update (prefix @ ''.backend'') (backend (cache c)) [];
          conf_dict = AList.update (prefix @ ''.expiration_time'') (expiration_time (cache c))
                        conf_dict
      in case add_backend_arguments prefix (backend_argument (cache c)) conf_dict of
           Inl e \<Rightarrow> Inl e
         | Inr conf_dict \<Rightarrow>
             set_memcache_arguments (cache c) prefix memcache_args
               (setdefault (prefix @ ''.arguments.url'') (memcache_servers (cache c)) conf_dict))"

text \<open>
  Vocabulary for the properties: an entry of \<open>backend_argument\<close> is well formed when it
  has a colon; its name is the text before the first colon and its value the text after it.
  \<open>supplied name args\<close> is the value that the last well-formed entry for \<open>name\<close> gives.
\<close>

definition well_formed :: "string \<Rightarrow> bool" where
  "well_formed a = (CHR '':'' \<in> set a)"

definition name_of :: "string \<Rightarrow> string" where
  "name_of a = takeWhile (\<lambda>x. x \<noteq> CHR '':'') a"

definition value_of :: "string \<Rightarrow> string" where
  "value_of a = tl (dropWhile (\<lambda>x. x \<noteq> CHR '':'') a)"

definition arg_key :: "string \<Rightarrow> string \<Rightarrow> string" where
  "arg_key prefix name = prefix @ ''.arguments.'' @ name"

fun supplied :: "string \<Rightarrow> string list \<Rightarrow> string option" where
  "supplied name [] = None"
| "supplied name (a # rest) =
     (case supplied name rest of
        Some v \<Rightarrow> Some v
      | None \<Rightarrow> (if well_formed a \<and> name_of a = name then Some (value_of a) else None))"

fun expand_arguments :: "string \<Rightarrow> string list \<Rightarrow> pydict \<Rightarrow> pydict" where
  "expand_arguments prefix [] d = d"
| "expand_arguments prefix (a # rest) d =
     expand_arguments prefix rest
       (if well_formed a then AList.update (arg_key prefix (name_of a)) (PyStr (value_of a)) d
        else d)"

text \<open>The dictionary that \<open>_build_cache_config\<close> returns, in closed form.\<close>

definition resolved_config :: "conf \<Rightarrow> pydict" where
  "resolved_config c =
     (let g = cache c; prefix = config_prefix g in
      AList.update (arg_key prefix ''pool_connection_get_timeout'')
            (memcache_pool_connection_get_timeout g)
         (AList.update (arg_key prefix ''pool_unused_timeout'') (memcache_pool_unused_timeout g)
         (AList.update (arg_key prefix ''pool_maxsize'') (memcache_pool_maxsize g)
         (AList.update (arg_key prefix ''socket_timeout'') (memcache_socket_timeout g)
         (AList.update (arg_key prefix ''dead_retry'') (memcache_dead_retry g)
         (setdefault (arg_key prefix ''url'') (memcache_servers g)
         (expand_arguments prefix (backend_argument g)
            [(prefix @ ''.backend'', backend g),
             (prefix @ ''.expiration_time'', expiration_time g)])))))))"

section \<open>The conversion int(s) of a string\<close>

text \<open>
  \<open>int(port)\<close> in base ten: white space around the number is dropped, a sign may stand
  first, then decimal digits follow, with single underscores allowed between digits;
  everything else raises \<open>ValueError\<close>. A character is taken by its code below 256. The
  interpreter's bound on the number of digits of a decimal string is not modelled.
\<close>

definition py_isspace :: "char \<Rightarrow> bool" where
  "py_isspace c =
     (let n = (of_char c :: nat) in (9 \<le> n \<and> n \<le> 13) \<or> n = 32 \<or> n = 133 \<or> n = 160)"

definition py_strip :: "string \<Rightarrow> string" where
  "py_strip s = rev (dropWhile py_isspace (rev (dropWhile py_isspace s)))"

definition is_digit :: "char \<Rightarrow> bool" where
  "is_digit c = (let n = (of_char c :: nat) in 48 \<le> n \<and> n \<le> 57)"

definition digit_value :: "char \<Rightarrow> int" where
  "digit_value c = int (of_char c) - 48"

fun digits_ok :: "string \<Rightarrow> bool" where
  "digits_ok [] = False"
| "digits_ok [c] = is_digit c"
| "digits_ok (c # d # cs) =
     (is_digit c \<and> (if d = CHR ''_'' then digits_ok cs else digits_ok (d # cs)))"

definition decimal_value :: "string \<Rightarrow> int" where
  "decimal_value s = foldl (\<lambda>acc c. acc * 10 + digit_value c) 0 (filter is_digit s)"

definition py_int :: "string \<Rightarrow> error + int" where
  "py_int s =
     (let t = py_strip s;
          (sign, body) = (case t of
                            c # r \<Rightarrow> (if c = CHR ''-'' then (- 1, r)
                                      else if c = CHR ''+'' then (1, r) else (1, t))
                          | [] \<Rightarrow> (1, t))
      in if digits_ok body then Inr (sign * decimal_value body) else Inl ValueError)"

section \<open>The sentinel adapter: RedisSentinelBackend.__init__\<close>

text \<open>
  \<open>arguments["sentinels"].split(",")\<close>: only a string has the method.
\<close>

definition py_split :: "pyval \<Rightarrow> char \<Rightarrow> error + string list" where
  "py_split v c = (case v of PyStr s \<Rightarrow> Inr (split_all c s) | _ \<Rightarrow> Inl AttributeError)"

text \<open>
  The outer comprehension \<open>[(host, int(port)) for host, port in ...]\<close> over the lists that
  \<open>rsplit\<close> returned: it unpacks each list into two names, converts the port, and stops at
  the first entry that raises.
\<close>

fun parse_sentinels :: "string list list \<Rightarrow> error + (string \<times> int) list" where
  "parse_sentinels [] = Inr []"
| "parse_sentinels (host_port # rest) =
     (case unpack_pair host_port of
        Inl e \<Rightarrow> Inl e
      | Inr (host, port) \<Rightarrow>
          (case py_int port of
             Inl e \<Rightarrow> Inl e
           | Inr p \<Rightarrow>
               (case parse_sentinels rest of
                  Inl e \<Rightarrow> Inl e
                | Inr sentinels \<Rightarrow> Inr ((host, p) # sentinels))))"

text \<open>
  \<open>if 'ssl' in arguments and arguments['ssl']: reformated_kwargs.update(ssl=..., ...)\<close>.
  The four values are read by subscript, in the order of the keyword arguments.
\<close>

definition ssl_requested :: "pydict \<Rightarrow> bool" where
  "ssl_requested arguments = (case map_of arguments ''ssl'' of None \<Rightarrow> False | Some v \<Rightarrow> truthy v)"

definition add_tls :: "pydict \<Rightarrow> pydict \<Rightarrow> error + pydict" where
  "add_tls arguments reformated_kwargs =
     (if ssl_requested arguments then
        (case getitem arguments ''ssl'' of Inl e \<Rightarrow> Inl e | Inr ssl \<Rightarrow>
         case getitem arguments ''ssl_certfile'' of Inl e \<Rightarrow> Inl e | Inr ssl_certfile \<Rightarrow>
         case getitem arguments ''ssl_keyfile'' of Inl e \<Rightarrow> Inl e | Inr ssl_keyfile \<Rightarrow>
         case getitem arguments ''ssl_ca_certs'' of Inl e \<Rightarrow> Inl e | Inr ssl_ca_certs \<Rightarrow>
           Inr (AList.update ''ssl_ca_certs'' ssl_ca_certs
               (AList.update ''ssl_keyfile'' ssl_keyfile
               (AList.update ''ssl_certfile'' ssl_certfile
               (AList.update ''ssl'' ssl reformated_kwargs)))))
      else Inr reformated_kwargs)"

text \<open>
  The constructor, up to the call of the constructor of dogpile's
  \<open>RedisSentinelBackend\<close>, which is not part of this repository: the result is the
  dictionary \<open>arguments\<close> as it is handed to that call.
\<close>

definition RedisSentinelBackend_init :: "pydict \<Rightarrow> error + pydict" where
  "RedisSentinelBackend_init arguments =
     (case getitem arguments ''sentinels'' of Inl e \<Rightarrow> Inl e | Inr sentinels_str \<Rightarrow>
      case py_split sentinels_str CHR '','' of Inl e \<Rightarrow> Inl e | Inr host_ports \<Rightarrow>
      case parse_sentinels (map (rsplit_last CHR '':'') host_ports) of
        Inl e \<Rightarrow> Inl e | Inr sentinels \<Rightarrow>
      case getitem arguments ''username'' of Inl e \<Rightarrow> Inl e | Inr username \<Rightarrow>
      case getitem arguments ''password'' of Inl e \<Rightarrow> Inl e | Inr password \<Rightarrow>
      case add_tls arguments [(''username'', username), (''password'', password)] of
        Inl e \<Rightarrow> Inl e | Inr reformated_kwargs \<Rightarrow>
      case delitem
             (AList.update ''sentinel_kwargs'' (PyDict reformated_kwargs)
             (AList.update ''connection_kwargs'' (PyDict reformated_kwargs)
             (AList.update ''sentinels'' (PyPairs sentinels) arguments)))
             ''username'' of
        Inl e \<Rightarrow> Inl e | Inr arguments' \<Rightarrow>
      delitem arguments' ''password'')"

text \<open>
  Vocabulary for the properties: the host is the text before the last colon of an entry,
  the port text the text after it; an entry is a host:port pair when it has a colon and
  its port text converts.
\<close>

definition host_text :: "string \<Rightarrow> string" where
  "host_text e = rev (tl (dropWhile (\<lambda>x. x \<noteq> CHR '':'') (rev e)))"

definition port_text :: "string \<Rightarrow> string" where
  "port_text e = rev (takeWhile (\<lambda>x. x \<noteq> CHR '':'') (rev e))"

definition is_host_port :: "string \<Rightarrow> bool" where
  "is_host_port e =
     (CHR '':'' \<in> set e \<and> (case py_int (port_text e) of Inl err \<Rightarrow> False | Inr p \<Rightarrow> True))"

definition port_number :: "string \<Rightarrow> int" where
  "port_number e = (case py_int (port_text e) of Inl err \<Rightarrow> 0 | Inr p \<Rightarrow> p)"

text \<open>The keyword dictionary that goes into \<open>connection_kwargs\<close> and \<open>sentinel_kwargs\<close>.\<close>

definition nested_kwargs :: "pydict \<Rightarrow> pydict" where
  "nested_kwargs arguments =
     [(''username'', the (map_of arguments ''username'')),
      (''password'', the (map_of arguments ''password''))] @
     (if ssl_requested arguments
      then [(''ssl'', the (map_of arguments ''ssl'')),
            (''ssl_certfile'', the (map_of arguments ''ssl_certfile'')),
            (''ssl_keyfile'', the (map_of arguments ''ssl_keyfile'')),
            (''ssl_ca_certs'', the (map_of arguments ''ssl_ca_certs''))]
      else [])"

text \<open>The keys that the constructor reads by subscript after \<open>sentinels\<close>, in order.\<close>

definition subscripted_keys :: "pydict \<Rightarrow> string list" where
  "subscripted_keys arguments =
     [''username'', ''password''] @
     (if ssl_requested arguments then [''ssl_certfile'', ''ssl_keyfile'', ''ssl_ca_certs''] else [])"

text \<open>
  The entries of the \<open>sentinels\<close> string, and the dictionary that the constructor hands on
  when nothing raises, in closed form.
\<close>

definition sentinel_entries :: "pydict \<Rightarrow> string list" where
  "sentinel_entries arguments =
     (case map_of arguments ''sentinels'' of Some (PyStr s) \<Rightarrow> split_all CHR '','' s | _ \<Rightarrow> [])"

definition reshaped_arguments :: "pydict \<Rightarrow> pydict" where
  "reshaped_arguments arguments =
     AList.delete ''password'' (AList.delete ''username''
       (AList.update ''sentinel_kwargs'' (PyDict (nested_kwargs arguments))
       (AList.update ''connection_kwargs'' (PyDict (nested_kwargs arguments))
       (AList.update ''sentinels''
          (PyPairs (map (\<lambda>e. (host_text e, port_number e)) (sentinel_entries arguments)))
          arguments))))"

section \<open>Regions and their configuration: configure_cache_region\<close>

text \<open>
  A region is an object of \<open>dogpile.cache\<close>, which is not part of this repository. What
  \<open>core.py\<close> reads and writes of it is the backend (absent until the region is configured)
  and the key mangler. A backend is a backend instance, or a proxy instance around the
  backend it wraps (its \<open>proxied\<close> attribute).
\<close>

datatype proxy_cls = DebugProxy | ImportedProxy string

datatype pyclass = ProxyBackendClass proxy_cls | OtherClass string

datatype backend_obj = Backend string pydict | Proxied proxy_cls backend_obj

datatype mangler = Sha1Mangler | BackendMangler string

record region =
  region_backend :: "backend_obj option"
  key_mangler :: "mangler option"

datatype pyobj = CacheRegion region | OtherObject pyval

text \<open>
  Modelled from the spec: the \<open>is_configured\<close> flag of a region and its \<open>wrap\<close> method,
  which are dogpile's. The flag is false until configuration completes; \<open>wrap\<close> makes an
  instance of the proxy class around the present backend and installs it as the region's
  backend ("each wrapping the previous result"). A class that is not a proxy class is
  refused with \<open>TypeError\<close>, and a region without a backend has nothing to wrap.
\<close>

definition is_configured :: "region \<Rightarrow> bool" where
  "is_configured r = (region_backend r \<noteq> None)"

definition region_wrap :: "pyclass \<Rightarrow> region \<Rightarrow> error option \<times> region" where
  "region_wrap cls r =
     (case cls of
        OtherClass n \<Rightarrow> (Some TypeError, r)
      | ProxyBackendClass p \<Rightarrow>
          (case region_backend r of
             None \<Rightarrow> (Some AttributeError, r)
           | Some b \<Rightarrow> (None, r\<lparr>region_backend := Some (Proxied p b)\<rparr>)))"

text \<open>
  The two calls into other libraries, taken as parameters: \<open>region.configure_from_config\<close>
  of dogpile, which returns the region as it left it and the exception it raised, if any,
  and \<open>importutils.import_class\<close> of oslo.utils.
\<close>

record library =
  configure_from_config :: "region \<Rightarrow> pydict \<Rightarrow> string \<Rightarrow> error option \<times> region"
  import_class :: "string \<Rightarrow> error + pyclass"

text \<open>The loop \<open>for class_path in conf.cache.proxies\<close>.\<close>

fun wrap_proxies :: "library \<Rightarrow> string list \<Rightarrow> region \<Rightarrow> error option \<times> region" where
  "wrap_proxies lib [] r = (None, r)"
| "wrap_proxies lib (class_path # rest) r =
     (case import_class lib class_path of
        Inl e \<Rightarrow> (Some e, r)
      | Inr cls \<Rightarrow>
          (case region_wrap cls r of
             (Some e, r') \<Rightarrow> (Some e, r')
           | (None, r') \<Rightarrow> wrap_proxies lib rest r'))"

text \<open>
  The result is the exception raised, if any, and the object passed in its final state;
  without an exception the function returns that object.
\<close>

definition configure_cache_region :: "library \<Rightarrow> conf \<Rightarrow> pyobj \<Rightarrow> error option \<times> pyobj" where
  "configure_cache_region lib c obj =
     (case obj of
        OtherObject v \<Rightarrow> (Some ConfigurationError, obj)
      | CacheRegion r \<Rightarrow>
          if \<not> is_configured r then
            (case build_cache_config c of
               Inl e \<Rightarrow> (Some e, obj)
             | Inr config_dict \<Rightarrow>
                 (case configure_from_config lib r config_dict (config_prefix (cache c) @ ''.'') of
                    (Some e, r1) \<Rightarrow> (Some e, CacheRegion r1)
                  | (None, r1) \<Rightarrow>
                      (case (if debug_cache_backend (cache c)
                             then region_wrap (ProxyBackendClass DebugProxy) r1
                             else (None, r1)) of
                         (Some e, r2) \<Rightarrow> (Some e, CacheRegion r2)
                       | (None, r2) \<Rightarrow>
                           (let r3 = (if key_mangler r2 = None
                                      then r2\<lparr>key_mangler := Some Sha1Mangler\<rparr> else r2)
                            in case wrap_proxies lib (proxies (cache c)) r3 of
                                 (e, r4) \<Rightarrow> (e, CacheRegion r4)))))
          else (None, obj))"

text \<open>
  Vocabulary for the properties: the layers that receive a call of \<open>get\<close>, \<open>set\<close> or
  \<open>delete\<close> on the region's backend, outermost first. A proxy receives the call and
  passes it to the backend it wraps, as \<open>_DebugProxy\<close> does in each of its methods.
\<close>

datatype layer = ProxyLayer proxy_cls | BackendLayer string

fun call_chain :: "backend_obj \<Rightarrow> layer list" where
  "call_chain (Backend name arguments) = [BackendLayer name]"
| "call_chain (Proxied p b) = ProxyLayer p # call_chain b"

definition wrap_all :: "proxy_cls list \<Rightarrow> backend_obj \<Rightarrow> backend_obj" where
  "wrap_all classes b = foldl (\<lambda>inner p. Proxied p inner) b classes"

section \<open>The default key mangler: _sha1_mangle_key\<close>

text \<open>
  A key is a text string, given by its code points, a byte string, or some other object.
  \<open>key.encode('utf-8', errors='xmlcharrefreplace')\<close> on a text string gives the UTF-8
  bytes of every code point that UTF-8 can encode; the error handler is called for the
  others, the surrogates \<open>U+D800\<close> to \<open>U+DFFF\<close>, and puts the character reference
  \<open>&#N;\<close> with the decimal code point in their place. The call cannot fail on a text
  string. A byte string and any other object have no \<open>encode\<close>: the \<open>AttributeError\<close> is
  caught and the key is passed on as it is.
\<close>

type_synonym byte = "8 word"

datatype pykey = KeyStr "nat list" | KeyBytes "byte list" | KeyOther

definition ascii_bytes :: "string \<Rightarrow> byte list" where
  "ascii_bytes s = map (\<lambda>c. of_nat (of_char c)) s"

























section \<open>Example inputs\<close>

definition example_cache :: cache_group where
  "example_cache =
     \<lparr> config_prefix = ''cache.oslo'', backend = PyStr ''dogpile.cache.null'',
       expiration_time = PyInt 600, backend_argument = [], proxies = [],
       enabled = True, debug_cache_backend = False,
       memcache_servers = PyList [''localhost:11211''], memcache_dead_retry = PyInt 300,
       memcache_socket_timeout = PyInt 3, memcache_pool_maxsize = PyInt 10,
       memcache_pool_unused_timeout = PyInt 60,
       memcache_pool_connection_get_timeout = PyInt 10 \<rparr>"

definition example_groups :: "string \<Rightarrow> group_opts option" where
  "example_groups g =
     (if g = ''identity'' then Some \<lparr> caching = Some False, cache_time = None \<rparr>
      else if g = ''catalog'' then Some \<lparr> caching = None, cache_time = Some (PyInt 30) \<rparr>
      else None)"

definition example_conf :: conf where
  "example_conf = \<lparr> cache = example_cache, groups = example_groups \<rparr>"

definition conf_with_arguments :: "string list \<Rightarrow> conf" where
  "conf_with_arguments args = example_conf\<lparr>cache := example_cache\<lparr>backend_argument := args\<rparr>\<rparr>"

text \<open>
  Modelled from the spec: a sample of the two libraries, for the examples. Sections 4.1
  and 4.4 of the specification describe dogpile's configuration step: it resolves the backend name through the
  registry, which fails with \<open>UnknownBackendError\<close> for a name that is not registered,
  builds the backend from the \<open>arguments\<close> sub-namespace, and takes the backend's own key
  mangler when it defines one. The sample registry holds the four built-in backends;
  the sample importer knows one proxy class and one class that is not a proxy.
\<close>

definition sample_registry :: "string \<Rightarrow> mangler option option" where
  "sample_registry name =
     (if name = ''oslo_cache.noop'' then Some None
      else if name = ''oslo_cache.dict'' then Some None
      else if name = ''oslo_cache.mongo'' then Some None
      else if name = ''oslo_cache.memcache_pool'' then Some (Some (BackendMangler ''memcached''))
      else None)"

definition strip_prefix :: "string \<Rightarrow> string \<Rightarrow> string option" where
  "strip_prefix p s = (if take (length p) s = p then Some (drop (length p) s) else None)"

definition sub_namespace :: "string \<Rightarrow> pydict \<Rightarrow> pydict" where
  "sub_namespace p d =
     concat (map (\<lambda>(k, v). case strip_prefix p k of None \<Rightarrow> [] | Some k' \<Rightarrow> [(k', v)]) d)"

definition sample_configure_from_config ::
  "region \<Rightarrow> pydict \<Rightarrow> string \<Rightarrow> error option \<times> region" where
  "sample_configure_from_config r config_dict prefix =
     (case map_of config_dict (prefix @ ''backend'') of
        Some (PyStr name) \<Rightarrow>
          (case sample_registry name of
             None \<Rightarrow> (Some (UnknownBackendError name), r)
           | Some own_mangler \<Rightarrow>
               (None, r\<lparr>region_backend :=
                           Some (Backend name (sub_namespace (prefix @ ''arguments.'') config_dict)),
                        key_mangler := own_mangler\<rparr>))
      | Some v \<Rightarrow> (Some TypeError, r)
      | None \<Rightarrow> (Some (KeyError (prefix @ ''backend'')), r))"

definition sample_import_class :: "string \<Rightarrow> error + pyclass" where
  "sample_import_class class_path =
     (if class_path = ''app.proxies.Audit'' then Inr (ProxyBackendClass (ImportedProxy ''Audit''))
      else if class_path = ''app.proxies.Retry'' then Inr (ProxyBackendClass (ImportedProxy ''Retry''))
      else if class_path = ''builtins.dict'' then Inr (OtherClass ''dict'')
      else Inl (ImportError class_path))"

definition sample_library :: library where
  "sample_library =
     \<lparr> configure_from_config = sample_configure_from_config,
       import_class = sample_import_class \<rparr>"

definition new_region :: region where
  "new_region = \<lparr> region_backend = None, key_mangler = None \<rparr>"

definition conf_with :: "string \<Rightarrow> bool \<Rightarrow> string list \<Rightarrow> conf" where
  "conf_with name debug class_paths =
     example_conf\<lparr>cache := example_cache\<lparr>backend := PyStr name, debug_cache_backend := debug,
                                         proxies := class_paths\<rparr>\<rparr>"

section \<open>Properties of should_cache\<close>

text \<open>
  C7. When the global \<open>enabled\<close> flag is false, \<open>should_cache\<close> returns false for every
  group and every value, whatever the group's \<open>caching\<close> flag (and also when the group is
  not registered). When \<open>enabled\<close> is true, it returns the \<open>caching\<close> flag of the group,
  and true when the group does not define the flag.
\<close>

theorem should_cache_enabled_and_group_flag:
  "(\<not> enabled (cache c) \<longrightarrow> should_cache c g v = Inr False) \<and>
   (enabled (cache c) \<and> groups c g = Some opts \<longrightarrow>
      should_cache c g v = Inr (case caching opts of None \<Rightarrow> True | Some b \<Rightarrow> b))"
  by (simp add: should_cache_def conf_getattr_def)

theorem should_cache_enabled_and_group_flag_witness:
  "\<not> enabled (cache (example_conf\<lparr>cache := example_cache\<lparr>enabled := False\<rparr>\<rparr>)) \<and>
   should_cache (example_conf\<lparr>cache := example_cache\<lparr>enabled := False\<rparr>\<rparr>) ''catalog'' (0::int)
     = Inr False \<and>
   enabled (cache example_conf) \<and>
   groups example_conf ''identity'' = Some \<lparr> caching = Some False, cache_time = None \<rparr> \<and>
   should_cache example_conf ''identity'' (0::int) = Inr False \<and>
   groups example_conf ''catalog'' = Some \<lparr> caching = None, cache_time = Some (PyInt 30) \<rparr> \<and>
   should_cache example_conf ''catalog'' (0::int) = Inr True"
  using should_cache_enabled_and_group_flag
          [where c = "example_conf\<lparr>cache := example_cache\<lparr>enabled := False\<rparr>\<rparr>"
             and g = "''catalog''" and v = "0::int"]
        should_cache_enabled_and_group_flag
          [where c = example_conf and g = "''identity''" and v = "0::int"
             and opts = "\<lparr> caching = Some False, cache_time = None \<rparr>"]
        should_cache_enabled_and_group_flag
          [where c = example_conf and g = "''catalog''" and v = "0::int"
             and opts = "\<lparr> caching = None, cache_time = Some (PyInt 30) \<rparr>"]
  by (simp add: example_conf_def example_cache_def example_groups_def)

section \<open>The config translator: properties\<close>

lemma unpack_split_first:
  "unpack_pair (split_first CHR '':'' a) =
     (if well_formed a then Inr (name_of a, value_of a) else Inl ValueError)"
  by (simp add: unpack_pair_def split_first_def well_formed_def name_of_def value_of_def)

lemma add_backend_arguments_expand:
  "add_backend_arguments prefix args d = Inr (expand_arguments prefix args d)"
  by (induction args arbitrary: d) (simp_all add: unpack_split_first arg_key_def)

lemma arg_key_inj: "arg_key prefix n = arg_key prefix m \<longleftrightarrow> n = m"
  by (simp add: arg_key_def)

lemma map_of_expand_arguments:
  "map_of (expand_arguments prefix args d) (arg_key prefix n) =
     (case supplied n args of Some v \<Rightarrow> Some (PyStr v) | None \<Rightarrow> map_of d (arg_key prefix n))"
  by (induction args arbitrary: d)
     (simp_all add: update_conv' arg_key_inj split: option.splits)

lemma keys_expand_arguments:
  "fst ` set (expand_arguments prefix args d) =
     fst ` set d \<union> arg_key prefix ` name_of ` {a \<in> set args. well_formed a}"
  by (induction args arbitrary: d) (auto simp: dom_update)

lemma distinct_expand_arguments:
  "distinct (map fst d) \<Longrightarrow> distinct (map fst (expand_arguments prefix args d))"
  by (induction args arbitrary: d) (simp_all add: distinct_update)

lemma expand_arguments_filter:
  "expand_arguments prefix (filter well_formed args) d = expand_arguments prefix args d"
  by (induction args arbitrary: d) simp_all

lemma set_memcache_arguments_eq:
  "set_memcache_arguments g prefix memcache_args d =
     Inr (AList.update (arg_key prefix ''pool_connection_get_timeout'')
            (memcache_pool_connection_get_timeout g)
         (AList.update (arg_key prefix ''pool_unused_timeout'') (memcache_pool_unused_timeout g)
         (AList.update (arg_key prefix ''pool_maxsize'') (memcache_pool_maxsize g)
         (AList.update (arg_key prefix ''socket_timeout'') (memcache_socket_timeout g)
         (AList.update (arg_key prefix ''dead_retry'') (memcache_dead_retry g) d)))))"
  by (simp add: memcache_args_def cache_getattr_def arg_key_def)

lemma build_cache_config_resolved: "build_cache_config c = Inr (resolved_config c)"
  by (simp add: build_cache_config_def resolved_config_def Let_def add_backend_arguments_expand
        set_memcache_arguments_eq arg_key_def)

lemma map_of_setdefault:
  "map_of (setdefault k v d) k' =
     (if k' = k then (case map_of d k of None \<Rightarrow> Some v | Some w \<Rightarrow> Some w) else map_of d k')"
  by (simp add: setdefault_def update_conv' split: option.splits)

lemma keys_setdefault: "fst ` set (setdefault k v d) = insert k (fst ` set d)"
proof (cases "map_of d k")
  case None
  then show ?thesis by (simp add: setdefault_def dom_update)
next
  case (Some w)
  then have "(k, w) \<in> set d" by (rule map_of_SomeD)
  then have "k \<in> fst ` set d" by force
  with Some show ?thesis by (auto simp: setdefault_def)
qed

lemma distinct_setdefault: "distinct (map fst d) \<Longrightarrow> distinct (map fst (setdefault k v d))"
  by (simp add: setdefault_def distinct_update split: option.splits)

lemma arg_key_not_field:
  "arg_key p n \<noteq> p @ ''.backend''" "arg_key p n \<noteq> p @ ''.expiration_time''"
  "p @ ''.backend'' \<noteq> arg_key p n" "p @ ''.expiration_time'' \<noteq> arg_key p n"
  by (simp_all add: arg_key_def)

lemma map_of_resolved_arg:
  "map_of (resolved_config c) (arg_key (config_prefix (cache c)) n) =
     (if n = ''pool_connection_get_timeout''
        then Some (memcache_pool_connection_get_timeout (cache c))
      else if n = ''pool_unused_timeout'' then Some (memcache_pool_unused_timeout (cache c))
      else if n = ''pool_maxsize'' then Some (memcache_pool_maxsize (cache c))
      else if n = ''socket_timeout'' then Some (memcache_socket_timeout (cache c))
      else if n = ''dead_retry'' then Some (memcache_dead_retry (cache c))
      else (case supplied n (backend_argument (cache c)) of
              Some v \<Rightarrow> Some (PyStr v)
            | None \<Rightarrow> if n = ''url'' then Some (memcache_servers (cache c)) else None))"
  by (simp add: resolved_config_def Let_def update_conv' arg_key_inj map_of_setdefault
        map_of_expand_arguments arg_key_not_field split: option.splits)

lemma keys_resolved:
  "fst ` set (resolved_config c) =
     {config_prefix (cache c) @ ''.backend'', config_prefix (cache c) @ ''.expiration_time'',
      arg_key (config_prefix (cache c)) ''url''}
     \<union> arg_key (config_prefix (cache c)) ` set memcache_args
     \<union> arg_key (config_prefix (cache c)) ` name_of `
         {a \<in> set (backend_argument (cache c)). well_formed a}"
  by (simp add: resolved_config_def Let_def dom_update keys_setdefault keys_expand_arguments
        memcache_args_def) blast

lemma distinct_resolved: "distinct (map fst (resolved_config c))"
  by (simp add: resolved_config_def Let_def distinct_update distinct_setdefault
        distinct_expand_arguments)

lemma resolved_filter:
  "resolved_config (c\<lparr>cache := (cache c)\<lparr>backend_argument :=
       filter well_formed (backend_argument (cache c))\<rparr>\<rparr>) = resolved_config c"
  by (simp add: resolved_config_def Let_def expand_arguments_filter)

text \<open>
  C1, as the code has it. Only \<open>url\<close> is set if absent (\<open>conf_dict.setdefault\<close>): a value that
  \<open>backend_argument\<close> gives for \<open>url\<close> is kept, and \<open>memcache_servers\<close> is used when there
  is none. The five other legacy fields are assigned after the loop over
  \<open>backend_argument\<close>, so the output always holds the value of the legacy option, whatever
  \<open>backend_argument\<close> gave for that name.
\<close>

theorem legacy_url_set_if_absent_others_overwritten:
  "\<exists>d. build_cache_config c = Inr d \<and>
     map_of d (arg_key (config_prefix (cache c)) ''url'') =
       (case supplied ''url'' (backend_argument (cache c)) of
          Some v \<Rightarrow> Some (PyStr v)
        | None \<Rightarrow> Some (memcache_servers (cache c))) \<and>
     map_of d (arg_key (config_prefix (cache c)) ''dead_retry'') =
       Some (memcache_dead_retry (cache c)) \<and>
     map_of d (arg_key (config_prefix (cache c)) ''socket_timeout'') =
       Some (memcache_socket_timeout (cache c)) \<and>
     map_of d (arg_key (config_prefix (cache c)) ''pool_maxsize'') =
       Some (memcache_pool_maxsize (cache c)) \<and>
     map_of d (arg_key (config_prefix (cache c)) ''pool_unused_timeout'') =
       Some (memcache_pool_unused_timeout (cache c)) \<and>
     map_of d (arg_key (config_prefix (cache c)) ''pool_connection_get_timeout'') =
       Some (memcache_pool_connection_get_timeout (cache c))"
  by (simp add: build_cache_config_resolved map_of_resolved_arg)

theorem legacy_url_set_if_absent_others_overwritten_witness:
  "\<exists>d. build_cache_config (conf_with_arguments [''url:10.0.0.1:11211'', ''pool_maxsize:99'']) = Inr d \<and>
     map_of d ''cache.oslo.arguments.url'' = Some (PyStr ''10.0.0.1:11211'') \<and>
     map_of d ''cache.oslo.arguments.pool_maxsize'' = Some (PyInt 10)"
proof -
  let ?c = "conf_with_arguments [''url:10.0.0.1:11211'', ''pool_maxsize:99'']"
  obtain d where d: "build_cache_config ?c = Inr d"
    and url: "map_of d (arg_key (config_prefix (cache ?c)) ''url'') =
       (case supplied ''url'' (backend_argument (cache ?c)) of
          Some v \<Rightarrow> Some (PyStr v)
        | None \<Rightarrow> Some (memcache_servers (cache ?c)))"
    and maxsize: "map_of d (arg_key (config_prefix (cache ?c)) ''pool_maxsize'') =
       Some (memcache_pool_maxsize (cache ?c))"
    using legacy_url_set_if_absent_others_overwritten [of ?c] by blast
  have "map_of d ''cache.oslo.arguments.url'' = Some (PyStr ''10.0.0.1:11211'')"
    using url
    by (simp add: conf_with_arguments_def example_conf_def example_cache_def arg_key_def
          well_formed_def name_of_def value_of_def)
  moreover have "map_of d ''cache.oslo.arguments.pool_maxsize'' = Some (PyInt 10)"
    using maxsize
    by (simp add: conf_with_arguments_def example_conf_def example_cache_def arg_key_def)
  ultimately show ?thesis using d by blast
qed

text \<open>
  The claim C1 as it is written fails for \<open>dead_retry\<close>: \<open>backend_argument\<close> gives
  \<open>dead_retry:5\<close>, and the output holds the legacy option's 300.
\<close>

theorem legacy_dead_retry_not_set_if_absent:
  "backend_argument (cache (conf_with_arguments [''dead_retry:5''])) = [''dead_retry:5''] \<and>
   memcache_dead_retry (cache (conf_with_arguments [''dead_retry:5''])) = PyInt 300 \<and>
   build_cache_config (conf_with_arguments [''dead_retry:5'']) = Inr
     [(''cache.oslo.backend'', PyStr ''dogpile.cache.null''),
      (''cache.oslo.expiration_time'', PyInt 600),
      (''cache.oslo.arguments.dead_retry'', PyInt 300),
      (''cache.oslo.arguments.url'', PyList [''localhost:11211'']),
      (''cache.oslo.arguments.socket_timeout'', PyInt 3),
      (''cache.oslo.arguments.pool_maxsize'', PyInt 10),
      (''cache.oslo.arguments.pool_unused_timeout'', PyInt 60),
      (''cache.oslo.arguments.pool_connection_get_timeout'', PyInt 10)] \<and>
   \<not> (\<exists>d. build_cache_config (conf_with_arguments [''dead_retry:5'']) = Inr d \<and>
          map_of d ''cache.oslo.arguments.dead_retry'' = Some (PyStr ''5''))"
  by (simp add: build_cache_config_def conf_with_arguments_def example_conf_def example_cache_def
        unpack_pair_def split_first_def setdefault_def memcache_args_def cache_getattr_def)

text \<open>
  C4, as the code has it. Translation always returns a dictionary. Its keys are pairwise
  distinct; they are \<open><prefix>.backend\<close>, \<open><prefix>.expiration_time\<close>, the six memcache
  keys, and \<open><prefix>.arguments.<name>\<close> for the name of every well-formed entry, so an
  entry without a colon adds no key, and leaving such entries out of \<open>backend_argument\<close>
  gives the same dictionary. For a name that is not one of the five legacy names assigned
  afterwards, the value under \<open><prefix>.arguments.<name>\<close> is the text after the first colon
  of the last well-formed entry for that name.
\<close>

theorem backend_arguments_expanded_malformed_skipped:
  "\<exists>d. build_cache_config c = Inr d \<and>
     distinct (map fst d) \<and>
     fst ` set d =
       {config_prefix (cache c) @ ''.backend'', config_prefix (cache c) @ ''.expiration_time'',
        arg_key (config_prefix (cache c)) ''url''}
       \<union> arg_key (config_prefix (cache c)) ` set memcache_args
       \<union> arg_key (config_prefix (cache c)) ` name_of `
           {a \<in> set (backend_argument (cache c)). well_formed a} \<and>
     (\<forall>n. n \<notin> set memcache_args \<longrightarrow>
        map_of d (arg_key (config_prefix (cache c)) n) =
          (case supplied n (backend_argument (cache c)) of
             Some v \<Rightarrow> Some (PyStr v)
           | None \<Rightarrow> if n = ''url'' then Some (memcache_servers (cache c)) else None)) \<and>
     build_cache_config
       (c\<lparr>cache := (cache c)\<lparr>backend_argument :=
           filter well_formed (backend_argument (cache c))\<rparr>\<rparr>) = Inr d"
proof -
  have vals: "\<forall>n. n \<notin> set memcache_args \<longrightarrow>
        map_of (resolved_config c) (arg_key (config_prefix (cache c)) n) =
          (case supplied n (backend_argument (cache c)) of
             Some v \<Rightarrow> Some (PyStr v)
           | None \<Rightarrow> if n = ''url'' then Some (memcache_servers (cache c)) else None)"
    by (simp add: map_of_resolved_arg memcache_args_def)
  have skipped: "build_cache_config
       (c\<lparr>cache := (cache c)\<lparr>backend_argument :=
           filter well_formed (backend_argument (cache c))\<rparr>\<rparr>) = Inr (resolved_config c)"
    by (simp only: build_cache_config_resolved resolved_filter)
  show ?thesis
    using vals skipped distinct_resolved [of c] keys_resolved [of c]
    by (intro exI [of _ "resolved_config c"] conjI) (simp_all add: build_cache_config_resolved)
qed

theorem backend_arguments_expanded_malformed_skipped_witness:
  "\<exists>d. build_cache_config (conf_with_arguments [''url:10.0.0.1:11211'', ''junk'', ''a:1'']) = Inr d \<and>
     ''a'' \<notin> set memcache_args \<and>
     map_of d ''cache.oslo.arguments.a'' = Some (PyStr ''1'') \<and>
     ''junk'' \<notin> set memcache_args \<and>
     map_of d ''cache.oslo.arguments.junk'' = None \<and>
     build_cache_config (conf_with_arguments [''url:10.0.0.1:11211'', ''a:1'']) = Inr d"
proof -
  let ?c = "conf_with_arguments [''url:10.0.0.1:11211'', ''junk'', ''a:1'']"
  obtain d where d: "build_cache_config ?c = Inr d"
    and vals: "\<forall>n. n \<notin> set memcache_args \<longrightarrow>
        map_of d (arg_key (config_prefix (cache ?c)) n) =
          (case supplied n (backend_argument (cache ?c)) of
             Some v \<Rightarrow> Some (PyStr v)
           | None \<Rightarrow> if n = ''url'' then Some (memcache_servers (cache ?c)) else None)"
    and skipped: "build_cache_config
       (?c\<lparr>cache := (cache ?c)\<lparr>backend_argument :=
           filter well_formed (backend_argument (cache ?c))\<rparr>\<rparr>) = Inr d"
    using backend_arguments_expanded_malformed_skipped [of ?c] by blast
  have a: "''a'' \<notin> set memcache_args" and junk: "''junk'' \<notin> set memcache_args"
    by (simp_all add: memcache_args_def)
  have "map_of d ''cache.oslo.arguments.a'' = Some (PyStr ''1'')"
    using vals [rule_format, OF a]
    by (simp add: conf_with_arguments_def example_conf_def example_cache_def arg_key_def
          well_formed_def name_of_def value_of_def)
  moreover have "map_of d ''cache.oslo.arguments.junk'' = None"
    using vals [rule_format, OF junk]
    by (simp add: conf_with_arguments_def example_conf_def example_cache_def arg_key_def
          well_formed_def name_of_def value_of_def)
  moreover have "build_cache_config (conf_with_arguments [''url:10.0.0.1:11211'', ''a:1'']) = Inr d"
    using skipped
    by (simp add: conf_with_arguments_def example_conf_def example_cache_def well_formed_def)
  ultimately show ?thesis using d a junk by blast
qed

text \<open>
  The claim C4 as it is written fails for a well-formed entry whose name is a legacy name
  (\<open>pool_maxsize:99\<close> yields the legacy option's 10) and for an entry whose name a later
  entry gives again (\<open>a:1\<close> yields no entry of value \<open>1\<close>).
\<close>

theorem well_formed_entry_value_not_kept:
  "well_formed ''pool_maxsize:99'' \<and> name_of ''pool_maxsize:99'' = ''pool_maxsize'' \<and>
   value_of ''pool_maxsize:99'' = ''99'' \<and>
   well_formed ''a:1'' \<and> name_of ''a:1'' = ''a'' \<and> value_of ''a:1'' = ''1'' \<and>
   build_cache_config (conf_with_arguments [''pool_maxsize:99'', ''a:1'', ''a:2'']) = Inr
     [(''cache.oslo.backend'', PyStr ''dogpile.cache.null''),
      (''cache.oslo.expiration_time'', PyInt 600),
      (''cache.oslo.arguments.pool_maxsize'', PyInt 10),
      (''cache.oslo.arguments.a'', PyStr ''2''),
      (''cache.oslo.arguments.url'', PyList [''localhost:11211'']),
      (''cache.oslo.arguments.dead_retry'', PyInt 300),
      (''cache.oslo.arguments.socket_timeout'', PyInt 3),
      (''cache.oslo.arguments.pool_unused_timeout'', PyInt 60),
      (''cache.oslo.arguments.pool_connection_get_timeout'', PyInt 10)] \<and>
   \<not> (\<exists>d. build_cache_config (conf_with_arguments [''pool_maxsize:99'', ''a:1'', ''a:2'']) = Inr d \<and>
          map_of d ''cache.oslo.arguments.pool_maxsize'' = Some (PyStr ''99'')) \<and>
   \<not> (\<exists>d. build_cache_config (conf_with_arguments [''pool_maxsize:99'', ''a:1'', ''a:2'']) = Inr d \<and>
          map_of d ''cache.oslo.arguments.a'' = Some (PyStr ''1''))"
  by (simp add: build_cache_config_def conf_with_arguments_def example_conf_def example_cache_def
        unpack_pair_def split_first_def setdefault_def memcache_args_def cache_getattr_def
        well_formed_def name_of_def value_of_def)

section \<open>The sentinel adapter: properties\<close>

lemma py_int_error: "py_int s = Inl e \<Longrightarrow> e = ValueError"
  by (auto simp: py_int_def Let_def split: if_splits prod.splits list.splits)

lemma unpack_rsplit_last:
  "unpack_pair (rsplit_last CHR '':'' e) =
     (if CHR '':'' \<in> set e then Inr (host_text e, port_text e) else Inl ValueError)"
  by (simp add: unpack_pair_def rsplit_last_def host_text_def port_text_def)

lemma parse_sentinels_ok:
  "\<forall>e \<in> set es. is_host_port e \<Longrightarrow>
   parse_sentinels (map (rsplit_last CHR '':'') es) =
     Inr (map (\<lambda>e. (host_text e, port_number e)) es)"
  by (induction es)
     (auto simp: unpack_rsplit_last is_host_port_def port_number_def split: sum.splits)

lemma parse_sentinels_bad:
  "\<exists>e \<in> set es. \<not> is_host_port e \<Longrightarrow>
   parse_sentinels (map (rsplit_last CHR '':'') es) = Inl ValueError"
proof (induction es)
  case Nil
  then show ?case by simp
next
  case (Cons a es)
  show ?case
  proof (cases "is_host_port a")
    case True
    with Cons.prems have "\<exists>e \<in> set es. \<not> is_host_port e" by auto
    then have "parse_sentinels (map (rsplit_last CHR '':'') es) = Inl ValueError"
      by (rule Cons.IH)
    with True show ?thesis
      by (auto simp: unpack_rsplit_last is_host_port_def split: sum.splits)
  next
    case False
    then show ?thesis
      by (auto simp: unpack_rsplit_last is_host_port_def split: sum.splits dest: py_int_error)
  qed
qed

lemma add_tls_closed:
  "add_tls args [(''username'', u), (''password'', p)] =
     (case List.find (\<lambda>k. map_of args k = None)
             (if ssl_requested args then [''ssl_certfile'', ''ssl_keyfile'', ''ssl_ca_certs'']
              else []) of
        Some k \<Rightarrow> Inl (KeyError k)
      | None \<Rightarrow>
          Inr ([(''username'', u), (''password'', p)] @
               (if ssl_requested args
                then [(''ssl'', the (map_of args ''ssl'')),
                      (''ssl_certfile'', the (map_of args ''ssl_certfile'')),
                      (''ssl_keyfile'', the (map_of args ''ssl_keyfile'')),
                      (''ssl_ca_certs'', the (map_of args ''ssl_ca_certs''))]
                else [])))"
  by (auto simp: add_tls_def getitem_def ssl_requested_def split: option.splits)

lemma delete_credentials:
  "map_of d ''username'' \<noteq> None \<Longrightarrow> map_of d ''password'' \<noteq> None \<Longrightarrow>
   (case delitem d ''username'' of Inl e \<Rightarrow> Inl e | Inr d' \<Rightarrow> delitem d' ''password'') =
     Inr (AList.delete ''password'' (AList.delete ''username'' d))"
  by (auto simp: delitem_def delete_conv' split: option.splits)

lemma init_closed_form:
  assumes s: "map_of args ''sentinels'' = Some (PyStr s)"
    and ok: "\<forall>e \<in> set (split_all CHR '','' s). is_host_port e"
  shows "RedisSentinelBackend_init args =
     (case List.find (\<lambda>k. map_of args k = None) (subscripted_keys args) of
        Some k \<Rightarrow> Inl (KeyError k)
      | None \<Rightarrow> Inr (reshaped_arguments args))"
proof (cases "map_of args ''username''")
  case None
  with s ok show ?thesis
    by (simp add: RedisSentinelBackend_init_def getitem_def py_split_def parse_sentinels_ok
          subscripted_keys_def)
next
  case u: (Some u)
  show ?thesis
  proof (cases "map_of args ''password''")
    case None
    with s ok u show ?thesis
      by (simp add: RedisSentinelBackend_init_def getitem_def py_split_def parse_sentinels_ok
            subscripted_keys_def)
  next
    case p: (Some p)
    show ?thesis
    proof (cases "List.find (\<lambda>k. map_of args k = None)
             (if ssl_requested args then [''ssl_certfile'', ''ssl_keyfile'', ''ssl_ca_certs'']
              else [])")
      case None
      have kw: "add_tls args [(''username'', u), (''password'', p)] = Inr (nested_kwargs args)"
        using None u p by (simp add: add_tls_closed nested_kwargs_def)
      have del: "(case delitem
             (AList.update ''sentinel_kwargs'' (PyDict (nested_kwargs args))
             (AList.update ''connection_kwargs'' (PyDict (nested_kwargs args))
             (AList.update ''sentinels''
                (PyPairs (map (\<lambda>e. (host_text e, port_number e)) (split_all CHR '','' s))) args)))
             ''username'' of
          Inl e \<Rightarrow> Inl e | Inr d' \<Rightarrow> delitem d' ''password'') = Inr (reshaped_arguments args)"
        using u p s
        by (subst delete_credentials)
           (simp_all add: update_conv' reshaped_arguments_def sentinel_entries_def)
      have "List.find (\<lambda>k. map_of args k = None) (subscripted_keys args) = None"
        using None u p by (simp add: subscripted_keys_def)
      then show ?thesis
        using s ok u p kw del
        by (simp add: RedisSentinelBackend_init_def getitem_def py_split_def parse_sentinels_ok)
    next
      case (Some k)
      then have kw: "add_tls args [(''username'', u), (''password'', p)] = Inl (KeyError k)"
        by (simp add: add_tls_closed)
      have "List.find (\<lambda>k. map_of args k = None) (subscripted_keys args) = Some k"
        using Some u p by (simp add: subscripted_keys_def)
      then show ?thesis
        using s ok u p kw
        by (simp add: RedisSentinelBackend_init_def getitem_def py_split_def parse_sentinels_ok)
    qed
  qed
qed

text \<open>
  C10. When the \<open>sentinels\<close> string has an entry with no colon, or an entry whose text after
  the last colon does not convert with \<open>int\<close>, the constructor raises \<open>ValueError\<close>: the
  entry is not skipped. The config translator, by contrast, returns a dictionary for
  every \<open>backend_argument\<close> list.
\<close>

theorem sentinel_malformed_entry_raises:
  assumes "map_of arguments ''sentinels'' = Some (PyStr s)"
    and "e \<in> set (split_all CHR '','' s)"
    and "CHR '':'' \<notin> set e \<or> py_int (port_text e) = Inl ValueError"
  shows "RedisSentinelBackend_init arguments = Inl ValueError \<and>
         (\<exists>d. build_cache_config c = Inr d)"
proof -
  from assms(3) have "\<not> is_host_port e"
    by (auto simp: is_host_port_def)
  with assms(2) have "\<exists>e \<in> set (split_all CHR '','' s). \<not> is_host_port e"
    by blast
  then have "parse_sentinels (map (rsplit_last CHR '':'') (split_all CHR '','' s)) = Inl ValueError"
    by (rule parse_sentinels_bad)
  with assms(1) show ?thesis
    by (simp add: RedisSentinelBackend_init_def getitem_def py_split_def
          build_cache_config_resolved)
qed

theorem sentinel_malformed_entry_raises_witness:
  "RedisSentinelBackend_init
     [(''sentinels'', PyStr ''10.0.0.1:26379,10.0.0.2''), (''username'', PyStr ''u''),
      (''password'', PyStr ''p'')] = Inl ValueError \<and>
   RedisSentinelBackend_init
     [(''sentinels'', PyStr ''10.0.0.1:26379,10.0.0.2:http''), (''username'', PyStr ''u''),
      (''password'', PyStr ''p'')] = Inl ValueError \<and>
   py_int (port_text ''10.0.0.2:http'') = Inl ValueError \<and>
   CHR '':'' \<notin> set ''10.0.0.2''"
proof -
  have no_colon: "CHR '':'' \<notin> set ''10.0.0.2''" by simp
  have not_int: "py_int (port_text ''10.0.0.2:http'') = Inl ValueError"
    by (simp add: py_int_def port_text_def py_strip_def py_isspace_def is_digit_def)
  have "RedisSentinelBackend_init
     [(''sentinels'', PyStr ''10.0.0.1:26379,10.0.0.2''), (''username'', PyStr ''u''),
      (''password'', PyStr ''p'')] = Inl ValueError"
    using sentinel_malformed_entry_raises
            [where arguments = "[(''sentinels'', PyStr ''10.0.0.1:26379,10.0.0.2''),
               (''username'', PyStr ''u''), (''password'', PyStr ''p'')]"
               and s = "''10.0.0.1:26379,10.0.0.2''" and e = "''10.0.0.2''"] no_colon
    by simp
  moreover have "RedisSentinelBackend_init
     [(''sentinels'', PyStr ''10.0.0.1:26379,10.0.0.2:http''), (''username'', PyStr ''u''),
      (''password'', PyStr ''p'')] = Inl ValueError"
    using sentinel_malformed_entry_raises
            [where arguments = "[(''sentinels'', PyStr ''10.0.0.1:26379,10.0.0.2:http''),
               (''username'', PyStr ''u''), (''password'', PyStr ''p'')]"
               and s = "''10.0.0.1:26379,10.0.0.2:http''" and e = "''10.0.0.2:http''"] not_int
    by simp
  ultimately show ?thesis using no_colon not_int by blast
qed

text \<open>
  C2, as the code has it. The constructor reads \<open>sentinels\<close> by subscript first and
  parses it: when \<open>sentinels\<close> is missing it raises \<open>KeyError\<close>, and when an entry of the
  string is not a host:port pair it raises \<open>ValueError\<close>, before any other key is read.
  When every entry is a host:port pair it reads \<open>username\<close> and \<open>password\<close> by
  subscript and, when \<open>ssl\<close> is present and true, \<open>ssl_certfile\<close>, \<open>ssl_keyfile\<close> and
  \<open>ssl_ca_certs\<close> as well, and raises \<open>KeyError\<close> for the first of these keys that is
  missing. It checks nothing else: when none is missing it returns the reshaped
  dictionary, whatever the values of the fields.
\<close>

theorem missing_field_raises_KeyError:
  "(map_of arguments ''sentinels'' = None \<longrightarrow>
      RedisSentinelBackend_init arguments = Inl (KeyError ''sentinels'')) \<and>
   (map_of arguments ''sentinels'' = Some (PyStr s) \<longrightarrow>
      RedisSentinelBackend_init arguments =
        (if \<forall>e \<in> set (split_all CHR '','' s). is_host_port e
         then case List.find (\<lambda>k. map_of arguments k = None) (subscripted_keys arguments) of
                Some k \<Rightarrow> Inl (KeyError k)
              | None \<Rightarrow> Inr (reshaped_arguments arguments)
         else Inl ValueError))"
proof (intro conjI impI)
  assume "map_of arguments ''sentinels'' = None"
  then show "RedisSentinelBackend_init arguments = Inl (KeyError ''sentinels'')"
    by (simp add: RedisSentinelBackend_init_def getitem_def)
next
  assume s: "map_of arguments ''sentinels'' = Some (PyStr s)"
  show "RedisSentinelBackend_init arguments =
        (if \<forall>e \<in> set (split_all CHR '','' s). is_host_port e
         then case List.find (\<lambda>k. map_of arguments k = None) (subscripted_keys arguments) of
                Some k \<Rightarrow> Inl (KeyError k)
              | None \<Rightarrow> Inr (reshaped_arguments arguments)
         else Inl ValueError)"
  proof (cases "\<forall>e \<in> set (split_all CHR '','' s). is_host_port e")
    case True
    then show ?thesis
      using init_closed_form [OF s True] by simp
  next
    case False
    then have "\<exists>e \<in> set (split_all CHR '','' s). \<not> is_host_port e"
      by simp
    then have "parse_sentinels (map (rsplit_last CHR '':'') (split_all CHR '','' s)) = Inl ValueError"
      by (rule parse_sentinels_bad)
    with s have "RedisSentinelBackend_init arguments = Inl ValueError"
      by (simp add: RedisSentinelBackend_init_def getitem_def py_split_def)
    then show ?thesis
      by (subst if_not_P [OF False])
  qed
qed

theorem missing_field_raises_KeyError_witness:
  "RedisSentinelBackend_init [(''username'', PyStr ''u''), (''password'', PyStr ''p'')]
     = Inl (KeyError ''sentinels'') \<and>
   RedisSentinelBackend_init [(''sentinels'', PyStr ''localhost'')] = Inl ValueError \<and>
   RedisSentinelBackend_init
     [(''sentinels'', PyStr ''10.0.0.1:26379''), (''username'', PyStr ''u''),
      (''ssl'', PyBool True), (''ssl_certfile'', PyNone), (''ssl_keyfile'', PyNone),
      (''ssl_ca_certs'', PyNone)] = Inl (KeyError ''password'') \<and>
   RedisSentinelBackend_init
     [(''sentinels'', PyStr ''10.0.0.1:26379''), (''username'', PyNone), (''password'', PyNone),
      (''ssl'', PyBool True), (''ssl_certfile'', PyNone), (''ssl_keyfile'', PyNone),
      (''ssl_ca_certs'', PyNone)] =
     Inr [(''sentinels'', PyPairs [(''10.0.0.1'', 26379)]),
          (''ssl'', PyBool True), (''ssl_certfile'', PyNone), (''ssl_keyfile'', PyNone),
          (''ssl_ca_certs'', PyNone),
          (''connection_kwargs'',
             PyDict [(''username'', PyNone), (''password'', PyNone), (''ssl'', PyBool True),
                     (''ssl_certfile'', PyNone), (''ssl_keyfile'', PyNone),
                     (''ssl_ca_certs'', PyNone)]),
          (''sentinel_kwargs'',
             PyDict [(''username'', PyNone), (''password'', PyNone), (''ssl'', PyBool True),
                     (''ssl_certfile'', PyNone), (''ssl_keyfile'', PyNone),
                     (''ssl_ca_certs'', PyNone)])]"
proof -
  have hp: "\<forall>e \<in> set (split_all CHR '','' ''10.0.0.1:26379''). is_host_port e"
    by (simp add: is_host_port_def py_int_def port_text_def py_strip_def py_isspace_def
          is_digit_def)
  have nhp: "\<not> (\<forall>e \<in> set (split_all CHR '','' ''localhost''). is_host_port e)"
    by (simp add: is_host_port_def)
  have pn: "port_number ''10.0.0.1:26379'' = 26379" "host_text ''10.0.0.1:26379'' = ''10.0.0.1''"
    by (simp_all add: port_number_def host_text_def py_int_def port_text_def py_strip_def
          py_isspace_def is_digit_def decimal_value_def digit_value_def)
  have "RedisSentinelBackend_init [(''username'', PyStr ''u''), (''password'', PyStr ''p'')]
     = Inl (KeyError ''sentinels'')"
    using missing_field_raises_KeyError
            [where arguments = "[(''username'', PyStr ''u''), (''password'', PyStr ''p'')]"]
    by simp
  moreover have "RedisSentinelBackend_init [(''sentinels'', PyStr ''localhost'')] = Inl ValueError"
    using missing_field_raises_KeyError
            [where arguments = "[(''sentinels'', PyStr ''localhost'')]" and s = "''localhost''"]
          nhp
    by simp
  moreover have "RedisSentinelBackend_init
     [(''sentinels'', PyStr ''10.0.0.1:26379''), (''username'', PyStr ''u''),
      (''ssl'', PyBool True), (''ssl_certfile'', PyNone), (''ssl_keyfile'', PyNone),
      (''ssl_ca_certs'', PyNone)] = Inl (KeyError ''password'')"
    using missing_field_raises_KeyError
            [where arguments = "[(''sentinels'', PyStr ''10.0.0.1:26379''),
               (''username'', PyStr ''u''), (''ssl'', PyBool True), (''ssl_certfile'', PyNone),
               (''ssl_keyfile'', PyNone), (''ssl_ca_certs'', PyNone)]"
               and s = "''10.0.0.1:26379''"] hp
    by (simp add: subscripted_keys_def ssl_requested_def)
  moreover have "RedisSentinelBackend_init
     [(''sentinels'', PyStr ''10.0.0.1:26379''), (''username'', PyNone), (''password'', PyNone),
      (''ssl'', PyBool True), (''ssl_certfile'', PyNone), (''ssl_keyfile'', PyNone),
      (''ssl_ca_certs'', PyNone)] =
     Inr [(''sentinels'', PyPairs [(''10.0.0.1'', 26379)]),
          (''ssl'', PyBool True), (''ssl_certfile'', PyNone), (''ssl_keyfile'', PyNone),
          (''ssl_ca_certs'', PyNone),
          (''connection_kwargs'',
             PyDict [(''username'', PyNone), (''password'', PyNone), (''ssl'', PyBool True),
                     (''ssl_certfile'', PyNone), (''ssl_keyfile'', PyNone),
                     (''ssl_ca_certs'', PyNone)]),
          (''sentinel_kwargs'',
             PyDict [(''username'', PyNone), (''password'', PyNone), (''ssl'', PyBool True),
                     (''ssl_certfile'', PyNone), (''ssl_keyfile'', PyNone),
                     (''ssl_ca_certs'', PyNone)])]"
    using missing_field_raises_KeyError
            [where arguments = "[(''sentinels'', PyStr ''10.0.0.1:26379''),
               (''username'', PyNone), (''password'', PyNone), (''ssl'', PyBool True),
               (''ssl_certfile'', PyNone), (''ssl_keyfile'', PyNone), (''ssl_ca_certs'', PyNone)]"
               and s = "''10.0.0.1:26379''"] hp pn
    by (simp add: subscripted_keys_def ssl_requested_def reshaped_arguments_def
          nested_kwargs_def sentinel_entries_def)
  ultimately show ?thesis by (intro conjI)
qed

text \<open>
  The claim C2 as it is written fails: with \<open>ssl\<close> true and no \<open>ssl_certfile\<close>, and with
  no \<open>password\<close>, the constructor itself raises \<open>KeyError\<close>, before the client is reached.
\<close>

theorem adapter_raises_on_missing_tls_field:
  "RedisSentinelBackend_init
     [(''sentinels'', PyStr ''10.0.0.1:26379,10.0.0.2:26379''), (''username'', PyStr ''u''),
      (''password'', PyStr ''p''), (''ssl'', PyBool True)] = Inl (KeyError ''ssl_certfile'') \<and>
   RedisSentinelBackend_init
     [(''sentinels'', PyStr ''10.0.0.1:26379,10.0.0.2:26379''), (''username'', PyStr ''u'')]
     = Inl (KeyError ''password'')"
  by (simp add: RedisSentinelBackend_init_def getitem_def py_split_def rsplit_last_def
        unpack_pair_def py_int_def py_strip_def py_isspace_def is_digit_def add_tls_def
        ssl_requested_def)

lemma map_of_reshaped_other:
  "k \<notin> {''sentinels'', ''username'', ''password'', ''connection_kwargs'', ''sentinel_kwargs''} \<Longrightarrow>
   map_of (reshaped_arguments arguments) k = map_of arguments k"
  by (simp add: reshaped_arguments_def delete_conv' update_conv')

text \<open>
  C3, as the code has it. Let the dictionary hold \<open>sentinels\<close> as a comma-separated string
  of host:port pairs, \<open>username\<close> and \<open>password\<close>, and, when \<open>ssl\<close> is present and true,
  also \<open>ssl_certfile\<close>, \<open>ssl_keyfile\<close> and \<open>ssl_ca_certs\<close>. Then the constructor hands on
  a dictionary in which \<open>sentinels\<close> is the list of (host, int(port)), each entry cut at
  its last colon; \<open>username\<close> and \<open>password\<close> are no longer keys; \<open>connection_kwargs\<close> and
  \<open>sentinel_kwargs\<close> both hold \<open>username\<close> and \<open>password\<close>, followed by the four TLS
  fields exactly when \<open>ssl\<close> is present and true; every other key keeps its value.
\<close>

theorem sentinel_arguments_reshaped:
  assumes "map_of arguments ''sentinels'' = Some (PyStr s)"
    and "\<forall>e \<in> set (split_all CHR '','' s). is_host_port e"
    and "map_of arguments ''username'' = Some u"
    and "map_of arguments ''password'' = Some p"
    and "ssl_requested arguments \<longrightarrow>
           map_of arguments ''ssl_certfile'' = Some cert \<and>
           map_of arguments ''ssl_keyfile'' = Some key \<and>
           map_of arguments ''ssl_ca_certs'' = Some ca"
  shows "\<exists>d kw ssl. RedisSentinelBackend_init arguments = Inr d \<and>
     map_of d ''sentinels'' =
       Some (PyPairs (map (\<lambda>e. (host_text e, port_number e)) (split_all CHR '','' s))) \<and>
     (\<forall>e \<in> set (split_all CHR '','' s). py_int (port_text e) = Inr (port_number e)) \<and>
     map_of d ''username'' = None \<and> map_of d ''password'' = None \<and>
     map_of d ''connection_kwargs'' = Some (PyDict kw) \<and>
     map_of d ''sentinel_kwargs'' = Some (PyDict kw) \<and>
     kw = (if ssl_requested arguments
           then [(''username'', u), (''password'', p), (''ssl'', ssl),
                 (''ssl_certfile'', cert), (''ssl_keyfile'', key), (''ssl_ca_certs'', ca)]
           else [(''username'', u), (''password'', p)]) \<and>
     (ssl_requested arguments \<longrightarrow> map_of arguments ''ssl'' = Some ssl) \<and>
     (\<forall>k. k \<notin> {''sentinels'', ''username'', ''password'', ''connection_kwargs'',
                ''sentinel_kwargs''} \<longrightarrow> map_of d k = map_of arguments k)"
proof -
  have found: "List.find (\<lambda>k. map_of arguments k = None) (subscripted_keys arguments) = None"
    using assms(3-5) by (simp add: subscripted_keys_def)
  have init: "RedisSentinelBackend_init arguments = Inr (reshaped_arguments arguments)"
    using init_closed_form [OF assms(1,2)] found by simp
  have ports: "\<forall>e \<in> set (split_all CHR '','' s). py_int (port_text e) = Inr (port_number e)"
    using assms(2) by (auto simp: is_host_port_def port_number_def split: sum.splits)
  have sent: "map_of (reshaped_arguments arguments) ''sentinels'' =
       Some (PyPairs (map (\<lambda>e. (host_text e, port_number e)) (split_all CHR '','' s)))"
    using assms(1) by (simp add: reshaped_arguments_def delete_conv' update_conv'
          sentinel_entries_def)
  have creds: "map_of (reshaped_arguments arguments) ''username'' = None"
    "map_of (reshaped_arguments arguments) ''password'' = None"
    by (simp_all add: reshaped_arguments_def delete_conv' update_conv')
  have kws: "map_of (reshaped_arguments arguments) ''connection_kwargs'' =
       Some (PyDict (nested_kwargs arguments))"
    "map_of (reshaped_arguments arguments) ''sentinel_kwargs'' =
       Some (PyDict (nested_kwargs arguments))"
    by (simp_all add: reshaped_arguments_def delete_conv' update_conv')
  have others: "\<forall>k. k \<notin> {''sentinels'', ''username'', ''password'', ''connection_kwargs'',
                ''sentinel_kwargs''} \<longrightarrow> map_of (reshaped_arguments arguments) k = map_of arguments k"
    by (intro allI impI) (rule map_of_reshaped_other)
  show ?thesis
  proof (cases "ssl_requested arguments")
    case True
    then obtain ssl where ssl: "map_of arguments ''ssl'' = Some ssl"
      by (auto simp: ssl_requested_def split: option.splits)
    have kw: "nested_kwargs arguments =
        (if ssl_requested arguments
         then [(''username'', u), (''password'', p), (''ssl'', ssl),
               (''ssl_certfile'', cert), (''ssl_keyfile'', key), (''ssl_ca_certs'', ca)]
         else [(''username'', u), (''password'', p)])"
      using True ssl assms(3-5) by (simp add: nested_kwargs_def)
    have sslv: "ssl_requested arguments \<longrightarrow> map_of arguments ''ssl'' = Some ssl"
      using ssl by simp
    show ?thesis
      apply (rule exI [of _ "reshaped_arguments arguments"])
      apply (rule exI [of _ "nested_kwargs arguments"])
      apply (rule exI [of _ ssl])
      apply (intro conjI)
      apply (rule init)
      apply (rule sent)
      apply (rule ports)
      apply (rule creds(1))
      apply (rule creds(2))
      apply (rule kws(1))
      apply (rule kws(2))
      apply (rule kw)
      apply (rule sslv)
      apply (rule others)
      done
  next
    case False
    have kw: "nested_kwargs arguments =
        (if ssl_requested arguments
         then [(''username'', u), (''password'', p), (''ssl'', PyNone),
               (''ssl_certfile'', cert), (''ssl_keyfile'', key), (''ssl_ca_certs'', ca)]
         else [(''username'', u), (''password'', p)])"
      using False assms(3,4) by (simp add: nested_kwargs_def)
    have sslv: "ssl_requested arguments \<longrightarrow> map_of arguments ''ssl'' = Some PyNone"
      using False by simp
    show ?thesis
      apply (rule exI [of _ "reshaped_arguments arguments"])
      apply (rule exI [of _ "nested_kwargs arguments"])
      apply (rule exI [of _ PyNone])
      apply (intro conjI)
      apply (rule init)
      apply (rule sent)
      apply (rule ports)
      apply (rule creds(1))
      apply (rule creds(2))
      apply (rule kws(1))
      apply (rule kws(2))
      apply (rule kw)
      apply (rule sslv)
      apply (rule others)
      done
  qed
qed

theorem sentinel_arguments_reshaped_witness:
  "RedisSentinelBackend_init
     [(''sentinels'', PyStr ''10.0.0.1:26379,10.0.0.2:26379''), (''username'', PyStr ''u''),
      (''password'', PyStr ''p'')] =
     Inr [(''sentinels'', PyPairs [(''10.0.0.1'', 26379), (''10.0.0.2'', 26379)]),
          (''connection_kwargs'', PyDict [(''username'', PyStr ''u''), (''password'', PyStr ''p'')]),
          (''sentinel_kwargs'', PyDict [(''username'', PyStr ''u''), (''password'', PyStr ''p'')])] \<and>
   (\<exists>d. RedisSentinelBackend_init
          [(''sentinels'', PyStr ''[::1]:26379''), (''username'', PyStr ''u''),
           (''password'', PyStr ''p''), (''ssl'', PyStr ''yes''), (''ssl_certfile'', PyStr ''c''),
           (''ssl_keyfile'', PyStr ''k''), (''ssl_ca_certs'', PyStr ''a'')] = Inr d \<and>
        map_of d ''sentinels'' = Some (PyPairs [(''[::1]'', 26379)]) \<and>
        map_of d ''username'' = None \<and> map_of d ''password'' = None \<and>
        map_of d ''ssl'' = Some (PyStr ''yes'') \<and>
        map_of d ''connection_kwargs'' =
          Some (PyDict [(''username'', PyStr ''u''), (''password'', PyStr ''p''),
                        (''ssl'', PyStr ''yes''), (''ssl_certfile'', PyStr ''c''),
                        (''ssl_keyfile'', PyStr ''k''), (''ssl_ca_certs'', PyStr ''a'')]) \<and>
        map_of d ''sentinel_kwargs'' =  map_of d ''connection_kwargs'')"
proof -
  let ?a = "[(''sentinels'', PyStr ''10.0.0.1:26379,10.0.0.2:26379''), (''username'', PyStr ''u''),
      (''password'', PyStr ''p'')]"
  let ?b = "[(''sentinels'', PyStr ''[::1]:26379''), (''username'', PyStr ''u''),
           (''password'', PyStr ''p''), (''ssl'', PyStr ''yes''), (''ssl_certfile'', PyStr ''c''),
           (''ssl_keyfile'', PyStr ''k''), (''ssl_ca_certs'', PyStr ''a'')]"
  have hp: "\<forall>e \<in> set (split_all CHR '','' ''10.0.0.1:26379,10.0.0.2:26379''). is_host_port e"
    "\<forall>e \<in> set (split_all CHR '','' ''[::1]:26379''). is_host_port e"
    by (simp_all add: is_host_port_def py_int_def port_text_def py_strip_def py_isspace_def
          is_digit_def)
  have pn: "port_number ''10.0.0.1:26379'' = 26379" "host_text ''10.0.0.1:26379'' = ''10.0.0.1''"
    "port_number ''10.0.0.2:26379'' = 26379" "host_text ''10.0.0.2:26379'' = ''10.0.0.2''"
    "port_number ''[::1]:26379'' = 26379" "host_text ''[::1]:26379'' = ''[::1]''"
    by (simp_all add: port_number_def host_text_def py_int_def port_text_def py_strip_def
          py_isspace_def is_digit_def decimal_value_def digit_value_def)
  have nossl: "\<not> ssl_requested ?a" and ssl: "ssl_requested ?b"
    by (simp_all add: ssl_requested_def)
  obtain d where d: "RedisSentinelBackend_init ?a = Inr d"
    and d_sent: "map_of d ''sentinels'' =
       Some (PyPairs (map (\<lambda>e. (host_text e, port_number e))
          (split_all CHR '','' ''10.0.0.1:26379,10.0.0.2:26379'')))"
    using sentinel_arguments_reshaped
            [where arguments = ?a and s = "''10.0.0.1:26379,10.0.0.2:26379''"
               and u = "PyStr ''u''" and p = "PyStr ''p''", OF _ hp(1)] nossl
    by auto
  have first: "RedisSentinelBackend_init ?a =
     Inr [(''sentinels'', PyPairs [(''10.0.0.1'', 26379), (''10.0.0.2'', 26379)]),
          (''connection_kwargs'', PyDict [(''username'', PyStr ''u''), (''password'', PyStr ''p'')]),
          (''sentinel_kwargs'', PyDict [(''username'', PyStr ''u''), (''password'', PyStr ''p'')])]"
    using init_closed_form [where args = ?a, OF _ hp(1)] pn nossl
    by (simp add: subscripted_keys_def reshaped_arguments_def nested_kwargs_def
          sentinel_entries_def)
  obtain d' kw ssl' where d': "RedisSentinelBackend_init ?b = Inr d'"
    and sent: "map_of d' ''sentinels'' =
       Some (PyPairs (map (\<lambda>e. (host_text e, port_number e)) (split_all CHR '','' ''[::1]:26379'')))"
    and creds: "map_of d' ''username'' = None" "map_of d' ''password'' = None"
    and kws: "map_of d' ''connection_kwargs'' = Some (PyDict kw)"
      "map_of d' ''sentinel_kwargs'' = Some (PyDict kw)"
    and kw: "kw = (if ssl_requested ?b
           then [(''username'', PyStr ''u''), (''password'', PyStr ''p''), (''ssl'', ssl'),
                 (''ssl_certfile'', PyStr ''c''), (''ssl_keyfile'', PyStr ''k''),
                 (''ssl_ca_certs'', PyStr ''a'')]
           else [(''username'', PyStr ''u''), (''password'', PyStr ''p'')])"
    and ssl': "ssl_requested ?b \<longrightarrow> map_of ?b ''ssl'' = Some ssl'"
    and others: "\<forall>k. k \<notin> {''sentinels'', ''username'', ''password'', ''connection_kwargs'',
                ''sentinel_kwargs''} \<longrightarrow> map_of d' k = map_of ?b k"
    using sentinel_arguments_reshaped
            [where arguments = ?b and s = "''[::1]:26379''"
               and u = "PyStr ''u''" and p = "PyStr ''p''" and cert = "PyStr ''c''"
               and key = "PyStr ''k''" and ca = "PyStr ''a''", OF _ hp(2)]
    by auto
  have "ssl' = PyStr ''yes''" using ssl ssl' by simp
  moreover have "map_of d' ''ssl'' = Some (PyStr ''yes'')"
    using others [rule_format, of "''ssl''"] by simp
  ultimately have second: "map_of d' ''sentinels'' = Some (PyPairs [(''[::1]'', 26379)]) \<and>
        map_of d' ''username'' = None \<and> map_of d' ''password'' = None \<and>
        map_of d' ''ssl'' = Some (PyStr ''yes'') \<and>
        map_of d' ''connection_kwargs'' =
          Some (PyDict [(''username'', PyStr ''u''), (''password'', PyStr ''p''),
                        (''ssl'', PyStr ''yes''), (''ssl_certfile'', PyStr ''c''),
                        (''ssl_keyfile'', PyStr ''k''), (''ssl_ca_certs'', PyStr ''a'')]) \<and>
        map_of d' ''sentinel_kwargs'' =  map_of d' ''connection_kwargs''"
    using sent creds kws kw ssl pn by simp
  show ?thesis using first d' second by blast
qed

text \<open>
  The claim C3 as it is written fails for a dictionary that holds \<open>sentinels\<close>, \<open>username\<close>
  and \<open>password\<close> and a true \<open>ssl\<close> without \<open>ssl_keyfile\<close>: nothing is merged, the
  constructor raises \<open>KeyError\<close>.
\<close>

theorem tls_fields_not_merged_when_one_is_missing:
  "ssl_requested
     [(''sentinels'', PyStr ''10.0.0.1:26379,10.0.0.2:26379''), (''username'', PyStr ''u''),
      (''password'', PyStr ''p''), (''ssl'', PyStr ''true''), (''ssl_certfile'', PyStr ''c'')] \<and>
   RedisSentinelBackend_init
     [(''sentinels'', PyStr ''10.0.0.1:26379,10.0.0.2:26379''), (''username'', PyStr ''u''),
      (''password'', PyStr ''p''), (''ssl'', PyStr ''true''), (''ssl_certfile'', PyStr ''c'')]
     = Inl (KeyError ''ssl_keyfile'')"
  by (simp add: RedisSentinelBackend_init_def getitem_def py_split_def rsplit_last_def
        unpack_pair_def py_int_def py_strip_def py_isspace_def is_digit_def add_tls_def
        ssl_requested_def)

section \<open>Region configuration: properties\<close>

lemma wrap_proxies_ok:
  "map (import_class lib) paths = map (\<lambda>p. Inr (ProxyBackendClass p)) classes \<Longrightarrow>
   region_backend r = Some b \<Longrightarrow>
   wrap_proxies lib paths r = (None, r\<lparr>region_backend := Some (wrap_all classes b)\<rparr>)"
proof (induction paths arbitrary: classes r b)
  case Nil
  then show ?case by (simp add: wrap_all_def)
next
  case (Cons path paths)
  from Cons.prems(1) obtain p ps where classes: "classes = p # ps"
    and path: "import_class lib path = Inr (ProxyBackendClass p)"
    and rest: "map (import_class lib) paths = map (\<lambda>p. Inr (ProxyBackendClass p)) ps"
    by (cases classes) auto
  have "wrap_proxies lib paths (r\<lparr>region_backend := Some (Proxied p b)\<rparr>) =
          (None, r\<lparr>region_backend := Some (Proxied p b)\<rparr>
                   \<lparr>region_backend := Some (wrap_all ps (Proxied p b))\<rparr>)"
    by (rule Cons.IH [OF rest]) simp
  then show ?case
    using Cons.prems(2) path classes by (simp add: region_wrap_def wrap_all_def)
qed

lemma call_chain_wrap_all:
  "call_chain (wrap_all classes b) = map ProxyLayer (rev classes) @ call_chain b"
  unfolding wrap_all_def by (induction classes arbitrary: b) simp_all



text \<open>
  C5. A call on a region that is already configured raises nothing and returns the region
  as it is: the backend, the proxies around it and the key mangler are those it had,
  whatever the configuration and whatever the libraries would do (they are not called).
  So after a call that configured the region, any further call changes nothing.
\<close>

theorem configure_configured_region_is_noop:
  "(is_configured r \<longrightarrow>
      configure_cache_region lib c (CacheRegion r) = (None, CacheRegion r)) \<and>
   (configure_cache_region lib c (CacheRegion before) = (None, CacheRegion after) \<and>
    is_configured after \<longrightarrow>
      configure_cache_region lib' c' (CacheRegion after) = (None, CacheRegion after))"
  by (simp add: configure_cache_region_def)

theorem configure_configured_region_is_noop_witness:
  "configure_cache_region sample_library (conf_with ''oslo_cache.dict'' True [''app.proxies.Audit''])
     (CacheRegion new_region) =
     (None, CacheRegion
        \<lparr> region_backend = Some (Proxied (ImportedProxy ''Audit'') (Proxied DebugProxy
             (Backend ''oslo_cache.dict''
               [(''url'', PyList [''localhost:11211'']), (''dead_retry'', PyInt 300),
                (''socket_timeout'', PyInt 3), (''pool_maxsize'', PyInt 10),
                (''pool_unused_timeout'', PyInt 60),
                (''pool_connection_get_timeout'', PyInt 10)]))),
          key_mangler = Some Sha1Mangler \<rparr>) \<and>
   configure_cache_region sample_library (conf_with ''oslo_cache.noop'' False [''app.proxies.Retry''])
     (CacheRegion
        \<lparr> region_backend = Some (Proxied (ImportedProxy ''Audit'') (Proxied DebugProxy
             (Backend ''oslo_cache.dict''
               [(''url'', PyList [''localhost:11211'']), (''dead_retry'', PyInt 300),
                (''socket_timeout'', PyInt 3), (''pool_maxsize'', PyInt 10),
                (''pool_unused_timeout'', PyInt 60),
                (''pool_connection_get_timeout'', PyInt 10)]))),
          key_mangler = Some Sha1Mangler \<rparr>) =
     (None, CacheRegion
        \<lparr> region_backend = Some (Proxied (ImportedProxy ''Audit'') (Proxied DebugProxy
             (Backend ''oslo_cache.dict''
               [(''url'', PyList [''localhost:11211'']), (''dead_retry'', PyInt 300),
                (''socket_timeout'', PyInt 3), (''pool_maxsize'', PyInt 10),
                (''pool_unused_timeout'', PyInt 60),
                (''pool_connection_get_timeout'', PyInt 10)]))),
          key_mangler = Some Sha1Mangler \<rparr>)"
proof -
  let ?r1 = "\<lparr> region_backend = Some (Proxied (ImportedProxy ''Audit'') (Proxied DebugProxy
             (Backend ''oslo_cache.dict''
               [(''url'', PyList [''localhost:11211'']), (''dead_retry'', PyInt 300),
                (''socket_timeout'', PyInt 3), (''pool_maxsize'', PyInt 10),
                (''pool_unused_timeout'', PyInt 60),
                (''pool_connection_get_timeout'', PyInt 10)]))),
          key_mangler = Some Sha1Mangler \<rparr>"
  have first: "configure_cache_region sample_library
      (conf_with ''oslo_cache.dict'' True [''app.proxies.Audit'']) (CacheRegion new_region) =
      (None, CacheRegion ?r1)"
    by (simp add: configure_cache_region_def is_configured_def new_region_def
          build_cache_config_resolved resolved_config_def conf_with_def example_conf_def
          example_cache_def setdefault_def arg_key_def sample_library_def
          sample_configure_from_config_def sample_registry_def sub_namespace_def
          strip_prefix_def region_wrap_def sample_import_class_def)
  have conf: "is_configured ?r1" by (simp add: is_configured_def)
  show ?thesis
    using first conf
      configure_configured_region_is_noop
        [where r = ?r1 and before = new_region and after = ?r1 and lib = sample_library
           and c = "conf_with ''oslo_cache.dict'' True [''app.proxies.Audit'']"
           and lib' = sample_library
           and c' = "conf_with ''oslo_cache.noop'' False [''app.proxies.Retry'']"]
    by simp
qed




text \<open>
  C8. On a region that is not yet configured, when \<open>configure_from_config\<close> succeeds and
  every class path of the \<open>proxies\<close> option imports as a proxy class, the call succeeds
  and the region's backend is the configured backend wrapped by the debug proxy first,
  when \<open>debug_cache_backend\<close> is set, and then by the listed classes in list order, each
  around the previous result. A call on the backend therefore reaches the listed
  proxies in reverse list order, the last-listed one first, then the debug proxy, then
  the layers of the configured backend.
\<close>

theorem proxies_wrap_in_list_order:
  assumes "\<not> is_configured r"
    and "build_cache_config c = Inr d"
    and "configure_from_config lib r d (config_prefix (cache c) @ ''.'') = (None, configured)"
    and "region_backend configured = Some b"
    and "map (import_class lib) (proxies (cache c)) = map (\<lambda>p. Inr (ProxyBackendClass p)) classes"
  shows "\<exists>final. configure_cache_region lib c (CacheRegion r) = (None, CacheRegion final) \<and>
     region_backend final =
       Some (wrap_all ((if debug_cache_backend (cache c) then [DebugProxy] else []) @ classes) b) \<and>
     call_chain (wrap_all ((if debug_cache_backend (cache c) then [DebugProxy] else []) @ classes) b) =
       map ProxyLayer (rev classes) @
       (if debug_cache_backend (cache c) then [ProxyLayer DebugProxy] else []) @ call_chain b \<and>
     (classes \<noteq> [] \<longrightarrow>
        hd (call_chain (wrap_all ((if debug_cache_backend (cache c) then [DebugProxy] else [])
                                   @ classes) b)) = ProxyLayer (last classes))"
proof -
  let ?dbg = "if debug_cache_backend (cache c) then [DebugProxy] else []"
  let ?r2 = "configured\<lparr>region_backend := Some (wrap_all ?dbg b)\<rparr>"
  let ?r3 = "if key_mangler ?r2 = None then ?r2\<lparr>key_mangler := Some Sha1Mangler\<rparr> else ?r2"
  have dbg: "(if debug_cache_backend (cache c)
              then region_wrap (ProxyBackendClass DebugProxy) configured
              else (None, configured)) = (None, ?r2)"
    using assms(4) by (simp add: region_wrap_def wrap_all_def)
  have b3: "region_backend ?r3 = Some (wrap_all ?dbg b)" by simp
  have w: "wrap_proxies lib (proxies (cache c)) ?r3 =
      (None, ?r3\<lparr>region_backend := Some (wrap_all classes (wrap_all ?dbg b))\<rparr>)"
    by (rule wrap_proxies_ok [OF assms(5) b3])
  have app: "wrap_all classes (wrap_all ?dbg b) = wrap_all (?dbg @ classes) b"
    by (simp add: wrap_all_def)
  have run: "configure_cache_region lib c (CacheRegion r) =
      (None, CacheRegion (?r3\<lparr>region_backend := Some (wrap_all (?dbg @ classes) b)\<rparr>))"
    using assms(1-3) dbg w app
    by (simp add: configure_cache_region_def Let_def del: wrap_proxies.simps)
  have chain: "call_chain (wrap_all (?dbg @ classes) b) =
       map ProxyLayer (rev classes) @
       (if debug_cache_backend (cache c) then [ProxyLayer DebugProxy] else []) @ call_chain b"
    by (simp add: call_chain_wrap_all)
  have first: "classes \<noteq> [] \<longrightarrow>
      hd (call_chain (wrap_all (?dbg @ classes) b)) = ProxyLayer (last classes)"
    by (simp add: chain hd_append hd_rev last_map hd_map del: call_chain.simps)
  have "region_backend (?r3\<lparr>region_backend := Some (wrap_all (?dbg @ classes) b)\<rparr>) =
      Some (wrap_all (?dbg @ classes) b)"
    by simp
  with run chain first show ?thesis by blast
qed

theorem proxies_wrap_in_list_order_witness:
  "\<exists>final. configure_cache_region sample_library
       (conf_with ''oslo_cache.dict'' True [''app.proxies.Audit'', ''app.proxies.Retry''])
       (CacheRegion new_region) = (None, CacheRegion final) \<and>
     region_backend final =
       Some (Proxied (ImportedProxy ''Retry'') (Proxied (ImportedProxy ''Audit'')
              (Proxied DebugProxy (Backend ''oslo_cache.dict''
               [(''url'', PyList [''localhost:11211'']), (''dead_retry'', PyInt 300),
                (''socket_timeout'', PyInt 3), (''pool_maxsize'', PyInt 10),
                (''pool_unused_timeout'', PyInt 60),
                (''pool_connection_get_timeout'', PyInt 10)])))) \<and>
     call_chain (the (region_backend final)) =
       [ProxyLayer (ImportedProxy ''Retry''), ProxyLayer (ImportedProxy ''Audit''),
        ProxyLayer DebugProxy, BackendLayer ''oslo_cache.dict'']"
proof -
  let ?c = "conf_with ''oslo_cache.dict'' True [''app.proxies.Audit'', ''app.proxies.Retry'']"
  let ?b = "Backend ''oslo_cache.dict''
               [(''url'', PyList [''localhost:11211'']), (''dead_retry'', PyInt 300),
                (''socket_timeout'', PyInt 3), (''pool_maxsize'', PyInt 10),
                (''pool_unused_timeout'', PyInt 60),
                (''pool_connection_get_timeout'', PyInt 10)]"
  let ?configured = "\<lparr> region_backend = Some ?b, key_mangler = None \<rparr>"
  have nc: "\<not> is_configured new_region" by (simp add: is_configured_def new_region_def)
  have cfc: "configure_from_config sample_library new_region (resolved_config ?c)
      (config_prefix (cache ?c) @ ''.'') = (None, ?configured)"
    by (simp add: resolved_config_def conf_with_def example_conf_def new_region_def
          example_cache_def setdefault_def arg_key_def sample_library_def
          sample_configure_from_config_def sample_registry_def sub_namespace_def
          strip_prefix_def)
  have imp: "map (import_class sample_library) (proxies (cache ?c)) =
      map (\<lambda>p. Inr (ProxyBackendClass p)) [ImportedProxy ''Audit'', ImportedProxy ''Retry'']"
    by (simp add: conf_with_def example_conf_def example_cache_def sample_library_def
          sample_import_class_def)
  have dbg: "debug_cache_backend (cache ?c)"
    by (simp add: conf_with_def example_conf_def example_cache_def)
  obtain final where run: "configure_cache_region sample_library ?c (CacheRegion new_region) =
        (None, CacheRegion final)"
    and backend: "region_backend final =
       Some (wrap_all ((if debug_cache_backend (cache ?c) then [DebugProxy] else []) @
                [ImportedProxy ''Audit'', ImportedProxy ''Retry'']) ?b)"
    using proxies_wrap_in_list_order
            [where lib = sample_library and c = ?c and r = new_region
               and d = "resolved_config ?c" and configured = ?configured and b = ?b
               and classes = "[ImportedProxy ''Audit'', ImportedProxy ''Retry'']",
             OF nc build_cache_config_resolved cfc _ imp]
    by auto
  have "region_backend final =
       Some (Proxied (ImportedProxy ''Retry'') (Proxied (ImportedProxy ''Audit'')
              (Proxied DebugProxy ?b)))"
    using backend dbg by (simp add: wrap_all_def)
  then show ?thesis using run by auto
qed

section \<open>The default key mangler: properties\<close>







end
